theory Spec2Isabelle
  imports Main "HOL-Library.Char_ord" "HOL-Library.List_Lexorder"
begin

section \<open>Python values held by the in-memory store\<close>

text \<open>
  The documents of \<^verbatim>\<open>src/backend/database.py\<close> are Python dicts with string
  keys whose values are \<^verbatim>\<open>None\<close>, strings, integers, lists and nested
  dicts. A dict is an association list in insertion order (the order Python iterates
  in); a well-formed dict has distinct keys. Bytes of a string are compared as
  characters; on the ASCII data of this module that is Python's code point order.
\<close>

datatype val =
    VNone
  | VStr string
  | VInt int
  | VList "val list"
  | VDict "(string \<times> val) list"

type_synonym doc = "(string \<times> val) list"

text \<open>The exceptions the operations of \<^verbatim>\<open>MockCollection\<close> can raise.\<close>

datatype error = TypeError | AttributeError | KeyError

subsection \<open>Equality: Python's \<^verbatim>\<open>==\<close> and \<^verbatim>\<open>!=\<close>\<close>

text \<open>
  Values of different kinds are never equal; lists are equal elementwise; two dicts
  are equal when they have the same number of items and every item of the first has
  an equal value under the same key in the second, whatever the order of the items.
\<close>

fun py_eq :: "val \<Rightarrow> val \<Rightarrow> bool"
  and py_eq_list :: "val list \<Rightarrow> val list \<Rightarrow> bool"
  and py_eq_items :: "(string \<times> val) list \<Rightarrow> (string \<times> val) list \<Rightarrow> bool"
  and py_eq_at :: "val \<Rightarrow> string \<Rightarrow> (string \<times> val) list \<Rightarrow> bool"
where
  "py_eq VNone VNone = True"
| "py_eq (VStr a) (VStr b) = (a = b)"
| "py_eq (VInt a) (VInt b) = (a = b)"
| "py_eq (VList xs) (VList ys) = py_eq_list xs ys"
| "py_eq (VDict d) (VDict e) = (length d = length e \<and> py_eq_items d e)"
| "py_eq _ _ = False"
| "py_eq_list [] [] = True"
| "py_eq_list (x # xs) (y # ys) = (py_eq x y \<and> py_eq_list xs ys)"
| "py_eq_list _ _ = False"
| "py_eq_items [] e = True"
| "py_eq_items ((k, v) # d) e = (py_eq_at v k e \<and> py_eq_items d e)"
| "py_eq_at v k [] = False"
| "py_eq_at v k ((k', w) # e) = (if k = k' then py_eq v w else py_eq_at v k e)"

subsection \<open>Order: Python's \<^verbatim>\<open><\<close> and \<^verbatim>\<open>>\<close>\<close>

text \<open>
  Strings compare lexicographically, integers numerically, lists by their first
  differing element (found with \<^verbatim>\<open>==\<close>) and then by length. Every other
  pair of operands raises \<^verbatim>\<open>TypeError\<close>.
\<close>

fun py_lt :: "val \<Rightarrow> val \<Rightarrow> error + bool"
  and py_lt_list :: "val list \<Rightarrow> val list \<Rightarrow> error + bool"
where
  "py_lt (VStr a) (VStr b) = Inr (a < b)"
| "py_lt (VInt a) (VInt b) = Inr (a < b)"
| "py_lt (VList xs) (VList ys) = py_lt_list xs ys"
| "py_lt _ _ = Inl TypeError"
| "py_lt_list [] [] = Inr False"
| "py_lt_list [] (y # ys) = Inr True"
| "py_lt_list (x # xs) [] = Inr False"
| "py_lt_list (x # xs) (y # ys) = (if py_eq x y then py_lt_list xs ys else py_lt x y)"

fun py_gt :: "val \<Rightarrow> val \<Rightarrow> error + bool"
  and py_gt_list :: "val list \<Rightarrow> val list \<Rightarrow> error + bool"
where
  "py_gt (VStr a) (VStr b) = Inr (a > b)"
| "py_gt (VInt a) (VInt b) = Inr (a > b)"
| "py_gt (VList xs) (VList ys) = py_gt_list xs ys"
| "py_gt _ _ = Inl TypeError"
| "py_gt_list [] [] = Inr False"
| "py_gt_list [] (y # ys) = Inr False"
| "py_gt_list (x # xs) [] = Inr True"
| "py_gt_list (x # xs) (y # ys) = (if py_eq x y then py_gt_list xs ys else py_gt x y)"

subsection \<open>Dict operations\<close>

text \<open>\<^verbatim>\<open>k in d\<close>, \<^verbatim>\<open>d.get(k)\<close> and \<^verbatim>\<open>d[k] = v\<close> on a dict. An assignment to an
  existing key keeps the key's position; a new key goes to the end.\<close>

definition dict_has :: "('k \<times> 'v) list \<Rightarrow> 'k \<Rightarrow> bool" where
  "dict_has d k = (map_of d k \<noteq> None)"

definition doc_get :: "doc \<Rightarrow> string \<Rightarrow> val" where
  "doc_get d k = (case map_of d k of None \<Rightarrow> VNone | Some v \<Rightarrow> v)"

fun dict_set :: "('k \<times> 'v) list \<Rightarrow> 'k \<Rightarrow> 'v \<Rightarrow> ('k \<times> 'v) list" where
  "dict_set [] k v = [(k, v)]"
| "dict_set ((k', w) # d) k v = (if k' = k then (k, v) # d else (k', w) # dict_set d k v)"

subsection \<open>Operators on values\<close>

text \<open>\<^verbatim>\<open>bool(v)\<close>: \<^verbatim>\<open>None\<close>, the empty string, zero and the empty
  containers are false.\<close>

fun truthy :: "val \<Rightarrow> bool" where
  "truthy VNone = False"
| "truthy (VStr s) = (s \<noteq> [])"
| "truthy (VInt i) = (i \<noteq> 0)"
| "truthy (VList xs) = (xs \<noteq> [])"
| "truthy (VDict d) = (d \<noteq> [])"

text \<open>Lists and dicts cannot be hashed: they are neither dict keys nor set elements.\<close>

fun hashable :: "val \<Rightarrow> bool" where
  "hashable (VList xs) = False"
| "hashable (VDict d) = False"
| "hashable _ = True"

text \<open>\<^verbatim>\<open>s in t\<close> on two strings: \<^verbatim>\<open>s\<close> occurs in \<^verbatim>\<open>t\<close> as a contiguous run.\<close>

fun starts_with :: "string \<Rightarrow> string \<Rightarrow> bool" where
  "starts_with [] t = True"
| "starts_with (c # s) [] = False"
| "starts_with (c # s) (c' # t) = (c = c' \<and> starts_with s t)"

fun str_contains :: "string \<Rightarrow> string \<Rightarrow> bool" where
  "str_contains s [] = (s = [])"
| "str_contains s (c # t) = (starts_with s (c # t) \<or> str_contains s t)"

text \<open>\<^verbatim>\<open>x in c\<close>: substring test on a string (the left operand must be a string),
  membership by \<^verbatim>\<open>==\<close> on a list, key test on a dict (the left operand must be
  hashable); \<^verbatim>\<open>None\<close> and integers are not containers.\<close>

fun py_in :: "val \<Rightarrow> val \<Rightarrow> error + bool" where
  "py_in (VStr s) (VStr t) = Inr (str_contains s t)"
| "py_in x (VStr t) = Inl TypeError"
| "py_in x (VList ys) = Inr (list_ex (py_eq x) ys)"
| "py_in (VStr s) (VDict d) = Inr (dict_has d s)"
| "py_in x (VDict d) = (if hashable x then Inr False else Inl TypeError)"
| "py_in x VNone = Inl TypeError"
| "py_in x (VInt i) = Inl TypeError"

text \<open>\<^verbatim>\<open>v.get(k)\<close>, \<^verbatim>\<open>v.items()\<close>: methods of dicts only.\<close>

fun py_get :: "val \<Rightarrow> string \<Rightarrow> error + val" where
  "py_get (VDict d) k = Inr (doc_get d k)"
| "py_get _ k = Inl AttributeError"

fun py_items :: "val \<Rightarrow> error + (string \<times> val) list" where
  "py_items (VDict d) = Inr d"
| "py_items _ = Inl AttributeError"

text \<open>\<^verbatim>\<open>v[k]\<close> with a string \<^verbatim>\<open>k\<close>: a dict yields the value or \<^verbatim>\<open>KeyError\<close>;
  strings and lists take integer indices only; the rest is not subscriptable.\<close>

fun py_index :: "val \<Rightarrow> string \<Rightarrow> error + val" where
  "py_index (VDict d) k = (case map_of d k of None \<Rightarrow> Inl KeyError | Some v \<Rightarrow> Inr v)"
| "py_index _ k = Inl TypeError"

text \<open>\<^verbatim>\<open>for x in v\<close>: the characters of a string, the elements of a list, the keys
  of a dict.\<close>

fun py_iter :: "val \<Rightarrow> error + val list" where
  "py_iter (VStr s) = Inr (map (\<lambda>c. VStr [c]) s)"
| "py_iter (VList xs) = Inr xs"
| "py_iter (VDict d) = Inr (map (\<lambda>(k, v). VStr k) d)"
| "py_iter _ = Inl TypeError"

text \<open>Sequencing of computations that may raise.\<close>

definition ebind :: "error + 'a \<Rightarrow> ('a \<Rightarrow> error + 'b) \<Rightarrow> error + 'b" where
  "ebind m f = (case m of Inl e \<Rightarrow> Inl e | Inr x \<Rightarrow> f x)"

section \<open>The in-memory collection\<close>

text \<open>
  \<^verbatim>\<open>MockCollection.data\<close>: a dict from the key a document was inserted under to
  the document, in insertion order. The stored documents are modelled as values: no
  two stored documents share a list object (the seed data builds every list afresh).
\<close>

type_synonym collection = "(val \<times> doc) list"

subsection \<open>\<^verbatim>\<open>find_one\<close>\<close>

text \<open>The inner \<^verbatim>\<open>for ... else\<close> of \<^verbatim>\<open>find_one\<close>: true when no field of the
  query differs, so that the loop ends without \<^verbatim>\<open>break\<close>.\<close>

fun all_fields_equal :: "doc \<Rightarrow> (string \<times> val) list \<Rightarrow> bool" where
  "all_fields_equal d [] = True"
| "all_fields_equal d ((k, v) # rest) =
     (if \<not> py_eq (doc_get d k) v then False else all_fields_equal d rest)"

fun find_one :: "collection \<Rightarrow> doc \<Rightarrow> doc option" where
  "find_one [] query = None"
| "find_one ((key, d) # rest) query =
     (if (case map_of query ''_id'' of
            None \<Rightarrow> False
          | Some qid \<Rightarrow> py_eq (doc_get d ''_id'') qid)
      then Some d
      else if all_fields_equal d query then Some d
      else find_one rest query)"

subsection \<open>\<^verbatim>\<open>find\<close> and \<^verbatim>\<open>count_documents\<close>\<close>

text \<open>\<^verbatim>\<open>any(day in days for day in candidates)\<close>: stops at the first candidate
  found, or at the first test that raises.\<close>

fun any_day_in :: "val list \<Rightarrow> val \<Rightarrow> error + bool" where
  "any_day_in [] days = Inr False"
| "any_day_in (day # rest) days =
     (case py_in day days of
        Inl e \<Rightarrow> Inl e
      | Inr found \<Rightarrow> if found then Inr True else any_day_in rest days)"

text \<open>The three operator branches of \<^verbatim>\<open>find\<close>. Each returns whether the document
  still matches (false is \<^verbatim>\<open>matches = False; break\<close>).\<close>

definition days_in_clause :: "doc \<Rightarrow> val \<Rightarrow> error + bool" where
  "days_in_clause d v =
     (case map_of d ''schedule_details'' of
        None \<Rightarrow> Inr False
      | Some sd \<Rightarrow>
          ebind (py_get sd ''days'') (\<lambda>days.
            if days = VNone then Inr False
            else ebind (py_index v ''$in'') (\<lambda>cands.
                 ebind (py_iter cands) (\<lambda>cs. any_day_in cs days))))"

definition start_gte_clause :: "doc \<Rightarrow> val \<Rightarrow> error + bool" where
  "start_gte_clause d v =
     (case map_of d ''schedule_details'' of
        None \<Rightarrow> Inr False
      | Some sd \<Rightarrow>
          ebind (py_get sd ''start_time'') (\<lambda>st.
            if st = VNone then Inr False
            else ebind (py_index v ''$gte'') (\<lambda>bound.
                 ebind (py_lt st bound) (\<lambda>below. Inr (\<not> below)))))"

definition end_lte_clause :: "doc \<Rightarrow> val \<Rightarrow> error + bool" where
  "end_lte_clause d v =
     (case map_of d ''schedule_details'' of
        None \<Rightarrow> Inr False
      | Some sd \<Rightarrow>
          ebind (py_get sd ''end_time'') (\<lambda>et.
            if et = VNone then Inr False
            else ebind (py_index v ''$lte'') (\<lambda>bound.
                 ebind (py_gt et bound) (\<lambda>above. Inr (\<not> above)))))"

text \<open>One item \<^verbatim>\<open>(k, v)\<close> of the query: the \<^verbatim>\<open>if\<close>/\<^verbatim>\<open>elif\<close> chain. The
  operator test \<^verbatim>\<open>"$in" in v\<close> is evaluated only when the key is the one of its
  branch, and may raise.\<close>

definition query_item :: "doc \<Rightarrow> string \<Rightarrow> val \<Rightarrow> error + bool" where
  "query_item d k v =
     ebind (if k = ''schedule_details.days'' then py_in (VStr ''$in'') v else Inr False)
       (\<lambda>is_in. if is_in then days_in_clause d v else
     ebind (if k = ''schedule_details.start_time'' then py_in (VStr ''$gte'') v else Inr False)
       (\<lambda>is_gte. if is_gte then start_gte_clause d v else
     ebind (if k = ''schedule_details.end_time'' then py_in (VStr ''$lte'') v else Inr False)
       (\<lambda>is_lte. if is_lte then end_lte_clause d v else
     Inr (py_eq (doc_get d k) v))))"

fun doc_matches :: "doc \<Rightarrow> (string \<times> val) list \<Rightarrow> error + bool" where
  "doc_matches d [] = Inr True"
| "doc_matches d ((k, v) # rest) =
     (case query_item d k v of
        Inl e \<Rightarrow> Inl e
      | Inr ok \<Rightarrow> if ok then doc_matches d rest else Inr False)"

fun find_loop :: "doc list \<Rightarrow> doc \<Rightarrow> error + doc list" where
  "find_loop [] query = Inr []"
| "find_loop (d # ds) query =
     (case doc_matches d query of
        Inl e \<Rightarrow> Inl e
      | Inr m \<Rightarrow>
          (case find_loop ds query of
             Inl e \<Rightarrow> Inl e
           | Inr results \<Rightarrow> Inr (if m then d # results else results)))"

text \<open>The query argument is optional; \<^verbatim>\<open>None\<close> stands for the empty query.\<close>

definition find_docs :: "collection \<Rightarrow> doc option \<Rightarrow> error + doc list" where
  "find_docs store query =
     find_loop (map snd store) (case query of None \<Rightarrow> [] | Some q \<Rightarrow> q)"

definition count_documents :: "collection \<Rightarrow> doc \<Rightarrow> error + nat" where
  "count_documents store query = ebind (find_docs store (Some query)) (\<lambda>r. Inr (length r))"

subsection \<open>\<^verbatim>\<open>insert_one\<close>\<close>

text \<open>\<^verbatim>\<open>self.data[doc.get("_id")] = doc\<close>; a dict key must be hashable.\<close>

definition insert_one :: "collection \<Rightarrow> doc \<Rightarrow> error + collection" where
  "insert_one store d =
     (let key = doc_get d ''_id''
      in if hashable key then Inr (dict_set store key d) else Inl TypeError)"

subsection \<open>\<^verbatim>\<open>update_one\<close>\<close>

text \<open>The \<^verbatim>\<open>$push\<close> loop on the matched document. \<^verbatim>\<open>append\<close> exists on lists
  only; an exception leaves the fields pushed so far in place.\<close>

fun push_items :: "doc \<Rightarrow> (string \<times> val) list \<Rightarrow> doc \<times> error option" where
  "push_items d [] = (d, None)"
| "push_items d ((k, v) # rest) =
     (let d1 = (if \<not> dict_has d k then dict_set d k (VList []) else d)
      in case doc_get d1 k of
           VList xs \<Rightarrow> push_items (dict_set d1 k (VList (xs @ [v]))) rest
         | _ \<Rightarrow> (d1, Some AttributeError))"

text \<open>The \<^verbatim>\<open>$pull\<close> loop: a field that is present and a list keeps the elements
  that differ from the pulled value.\<close>

fun pull_items :: "doc \<Rightarrow> (string \<times> val) list \<Rightarrow> doc" where
  "pull_items d [] = d"
| "pull_items d ((k, v) # rest) =
     pull_items
       (case map_of d k of
          Some (VList xs) \<Rightarrow> dict_set d k (VList (filter (\<lambda>x. \<not> py_eq x v) xs))
        | _ \<Rightarrow> d)
       rest"

text \<open>The body run on the first document whose \<^verbatim>\<open>_id\<close> equals the query's: the
  document afterwards, and the modified count 1 or the exception raised.\<close>

definition apply_update :: "doc \<Rightarrow> doc \<Rightarrow> doc \<times> (error + nat)" where
  "apply_update d update =
     (case map_of update ''$push'' of
        Some p \<Rightarrow>
          (case py_items p of
             Inl e \<Rightarrow> (d, Inl e)
           | Inr items \<Rightarrow>
               (case push_items d items of
                  (d', None) \<Rightarrow> (d', Inr 1)
                | (d', Some e) \<Rightarrow> (d', Inl e)))
      | None \<Rightarrow>
          (case map_of update ''$pull'' of
             Some p \<Rightarrow>
               (case py_items p of
                  Inl e \<Rightarrow> (d, Inl e)
                | Inr items \<Rightarrow> (pull_items d items, Inr 1))
           | None \<Rightarrow> (d, Inr 1)))"

text \<open>\<^verbatim>\<open>update_one\<close> returns the store afterwards and \<^verbatim>\<open>modified_count\<close>, or the
  exception raised.\<close>

fun update_one :: "collection \<Rightarrow> doc \<Rightarrow> doc \<Rightarrow> collection \<times> (error + nat)" where
  "update_one [] query update = ([], Inr 0)"
| "update_one ((key, d) # rest) query update =
     (if py_eq (doc_get d ''_id'') (doc_get query ''_id'')
      then (case apply_update d update of (d', r) \<Rightarrow> ((key, d') # rest, r))
      else (case update_one rest query update of (rest', r) \<Rightarrow> ((key, d) # rest', r)))"

subsection \<open>\<^verbatim>\<open>aggregate\<close>\<close>

text \<open>\<^verbatim>\<open>days.add(day)\<close> for every day of one document: a set element must be
  hashable. The set is kept as a list without duplicates.\<close>

fun add_days :: "val list \<Rightarrow> val list \<Rightarrow> error + val list" where
  "add_days acc [] = Inr acc"
| "add_days acc (day # rest) =
     (if hashable day then add_days (List.insert day acc) rest else Inl TypeError)"

text \<open>What the inner loop iterates over for one document: nothing when the document
  has no \<^verbatim>\<open>schedule_details\<close> or that has no \<^verbatim>\<open>days\<close>.\<close>

definition doc_days :: "doc \<Rightarrow> error + val list" where
  "doc_days d =
     (case map_of d ''schedule_details'' of
        None \<Rightarrow> Inr []
      | Some sd \<Rightarrow>
          ebind (py_in (VStr ''days'') sd) (\<lambda>has_days.
            if has_days then ebind (py_index sd ''days'') py_iter else Inr []))"

fun collect_days :: "val list \<Rightarrow> doc list \<Rightarrow> error + val list" where
  "collect_days acc [] = Inr acc"
| "collect_days acc (d # ds) =
     (case doc_days d of
        Inl e \<Rightarrow> Inl e
      | Inr ds' \<Rightarrow>
          (case add_days acc ds' of
             Inl e \<Rightarrow> Inl e
           | Inr acc' \<Rightarrow> collect_days acc' ds))"

text \<open>\<^verbatim>\<open>sorted\<close> on the elements of a set of hashable values: strings among
  themselves and integers among themselves are ordered; two elements of different
  kinds cannot be compared.\<close>

fun str_of :: "val \<Rightarrow> string option" where
  "str_of (VStr s) = Some s"
| "str_of _ = None"

fun int_of :: "val \<Rightarrow> int option" where
  "int_of (VInt i) = Some i"
| "int_of _ = None"

definition py_sorted :: "val list \<Rightarrow> error + val list" where
  "py_sorted xs =
     (if length xs \<le> 1 then Inr xs
      else case those (map str_of xs) of
             Some ss \<Rightarrow> Inr (map VStr (sort ss))
           | None \<Rightarrow>
               (case those (map int_of xs) of
                  Some ns \<Rightarrow> Inr (map VInt (sort ns))
                | None \<Rightarrow> Inl TypeError))"

definition aggregate :: "collection \<Rightarrow> doc list \<Rightarrow> error + doc list" where
  "aggregate store pipeline =
     (case pipeline of
        stage0 # stage1 # later \<Rightarrow>
          if truthy (doc_get stage0 ''$unwind'') \<and> truthy (doc_get stage1 ''$group'')
          then ebind (collect_days [] (map snd store)) (\<lambda>days.
               ebind (py_sorted days) (\<lambda>sorted_days.
               Inr (map (\<lambda>day. [(''_id'', day)]) sorted_days)))
          else Inr []
      | _ \<Rightarrow> Inr [])"

section \<open>Seeding\<close>

text \<open>\<^verbatim>\<open>_get_initial_activities\<close>: the activities by name, in the order of the source.\<close>

definition initial_activities :: "(string \<times> doc) list" where
  "initial_activities =
    [(''Chess Club'',
      [(''description'',
         VStr ''Learn strategies and compete in chess tournaments''),
       (''schedule'', VStr ''Mondays and Fridays, 3:15 PM - 4:45 PM''),
       (''schedule_details'', VDict
           [(''days'', VList [VStr ''Monday'', VStr ''Friday'']),
            (''start_time'', VStr ''15:15''),
            (''end_time'', VStr ''16:45'')]),
       (''max_participants'', VInt 12),
       (''participants'', VList
           [VStr ''michael@mergington.edu'',
            VStr ''daniel@mergington.edu''])]),
     (''Programming Class'',
      [(''description'',
         VStr ''Learn programming fundamentals and build software projects''),
       (''schedule'', VStr ''Tuesdays and Thursdays, 7:00 AM - 8:00 AM''),
       (''schedule_details'', VDict
           [(''days'', VList [VStr ''Tuesday'', VStr ''Thursday'']),
            (''start_time'', VStr ''07:00''),
            (''end_time'', VStr ''08:00'')]),
       (''max_participants'', VInt 20),
       (''participants'', VList
           [VStr ''emma@mergington.edu'',
            VStr ''sophia@mergington.edu''])]),
     (''Morning Fitness'',
      [(''description'',
         VStr ''Early morning physical training and exercises''),
       (''schedule'', VStr ''Mondays, Wednesdays, Fridays, 6:30 AM - 7:45 AM''),
       (''schedule_details'', VDict
           [(''days'', VList [VStr ''Monday'', VStr ''Wednesday'', VStr ''Friday'']),
            (''start_time'', VStr ''06:30''),
            (''end_time'', VStr ''07:45'')]),
       (''max_participants'', VInt 30),
       (''participants'', VList
           [VStr ''john@mergington.edu'',
            VStr ''olivia@mergington.edu''])]),
     (''Soccer Team'',
      [(''description'',
         VStr ''Join the school soccer team and compete in matches''),
       (''schedule'', VStr ''Tuesdays and Thursdays, 3:30 PM - 5:30 PM''),
       (''schedule_details'', VDict
           [(''days'', VList [VStr ''Tuesday'', VStr ''Thursday'']),
            (''start_time'', VStr ''15:30''),
            (''end_time'', VStr ''17:30'')]),
       (''max_participants'', VInt 22),
       (''participants'', VList
           [VStr ''liam@mergington.edu'',
            VStr ''noah@mergington.edu''])]),
     (''Basketball Team'',
      [(''description'',
         VStr ''Practice and compete in basketball tournaments''),
       (''schedule'', VStr ''Wednesdays and Fridays, 3:15 PM - 5:00 PM''),
       (''schedule_details'', VDict
           [(''days'', VList [VStr ''Wednesday'', VStr ''Friday'']),
            (''start_time'', VStr ''15:15''),
            (''end_time'', VStr ''17:00'')]),
       (''max_participants'', VInt 15),
       (''participants'', VList
           [VStr ''ava@mergington.edu'',
            VStr ''mia@mergington.edu''])]),
     (''Art Club'',
      [(''description'',
         VStr ''Explore various art techniques and create masterpieces''),
       (''schedule'', VStr ''Thursdays, 3:15 PM - 5:00 PM''),
       (''schedule_details'', VDict
           [(''days'', VList [VStr ''Thursday'']),
            (''start_time'', VStr ''15:15''),
            (''end_time'', VStr ''17:00'')]),
       (''max_participants'', VInt 15),
       (''participants'', VList
           [VStr ''amelia@mergington.edu'',
            VStr ''harper@mergington.edu''])]),
     (''Drama Club'',
      [(''description'',
         VStr ''Act, direct, and produce plays and performances''),
       (''schedule'', VStr ''Mondays and Wednesdays, 3:30 PM - 5:30 PM''),
       (''schedule_details'', VDict
           [(''days'', VList [VStr ''Monday'', VStr ''Wednesday'']),
            (''start_time'', VStr ''15:30''),
            (''end_time'', VStr ''17:30'')]),
       (''max_participants'', VInt 20),
       (''participants'', VList
           [VStr ''ella@mergington.edu'',
            VStr ''scarlett@mergington.edu''])]),
     (''Math Club'',
      [(''description'',
         VStr ''Solve challenging problems and prepare for math competitions''),
       (''schedule'', VStr ''Tuesdays, 7:15 AM - 8:00 AM''),
       (''schedule_details'', VDict
           [(''days'', VList [VStr ''Tuesday'']),
            (''start_time'', VStr ''07:15''),
            (''end_time'', VStr ''08:00'')]),
       (''max_participants'', VInt 10),
       (''participants'', VList
           [VStr ''james@mergington.edu'',
            VStr ''benjamin@mergington.edu''])]),
     (''Debate Team'',
      [(''description'',
         VStr ''Develop public speaking and argumentation skills''),
       (''schedule'', VStr ''Fridays, 3:30 PM - 5:30 PM''),
       (''schedule_details'', VDict
           [(''days'', VList [VStr ''Friday'']),
            (''start_time'', VStr ''15:30''),
            (''end_time'', VStr ''17:30'')]),
       (''max_participants'', VInt 12),
       (''participants'', VList
           [VStr ''charlotte@mergington.edu'',
            VStr ''amelia@mergington.edu''])]),
     (''Weekend Robotics Workshop'',
      [(''description'',
         VStr ''Build and program robots in our state-of-the-art workshop''),
       (''schedule'', VStr ''Saturdays, 10:00 AM - 2:00 PM''),
       (''schedule_details'', VDict
           [(''days'', VList [VStr ''Saturday'']),
            (''start_time'', VStr ''10:00''),
            (''end_time'', VStr ''14:00'')]),
       (''max_participants'', VInt 15),
       (''participants'', VList
           [VStr ''ethan@mergington.edu'',
            VStr ''oliver@mergington.edu''])]),
     (''Science Olympiad'',
      [(''description'',
         VStr ''Weekend science competition preparation for regional and state events''),
       (''schedule'', VStr ''Saturdays, 1:00 PM - 4:00 PM''),
       (''schedule_details'', VDict
           [(''days'', VList [VStr ''Saturday'']),
            (''start_time'', VStr ''13:00''),
            (''end_time'', VStr ''16:00'')]),
       (''max_participants'', VInt 18),
       (''participants'', VList
           [VStr ''isabella@mergington.edu'',
            VStr ''lucas@mergington.edu''])]),
     (''Sunday Chess Tournament'',
      [(''description'',
         VStr ''Weekly tournament for serious chess players with rankings''),
       (''schedule'', VStr ''Sundays, 2:00 PM - 5:00 PM''),
       (''schedule_details'', VDict
           [(''days'', VList [VStr ''Sunday'']),
            (''start_time'', VStr ''14:00''),
            (''end_time'', VStr ''17:00'')]),
       (''max_participants'', VInt 16),
       (''participants'', VList
           [VStr ''william@mergington.edu'',
            VStr ''jacob@mergington.edu''])])]"

text \<open>
  \<^verbatim>\<open>_get_initial_teachers\<close>. The password hash comes from Argon2 with a fresh
  salt on every call; the hash function is a parameter of the model.
\<close>

definition initial_teachers :: "(string \<Rightarrow> string) \<Rightarrow> doc list" where
  "initial_teachers hash_password =
    [[(''username'', VStr ''mrodriguez''),
      (''display_name'', VStr ''Ms. Rodriguez''),
      (''password'', VStr (hash_password ''art123'')),
      (''role'', VStr ''teacher'')],
     [(''username'', VStr ''mchen''),
      (''display_name'', VStr ''Mr. Chen''),
      (''password'', VStr (hash_password ''chess456'')),
      (''role'', VStr ''teacher'')],
     [(''username'', VStr ''principal''),
      (''display_name'', VStr ''Principal Martinez''),
      (''password'', VStr (hash_password ''admin789'')),
      (''role'', VStr ''admin'')]]"

text \<open>The dict display \<^verbatim>\<open>{"_id": x, **details}\<close>: the items of \<^verbatim>\<open>details\<close> are
  assigned in order onto the one-item dict.\<close>

definition with_id :: "val \<Rightarrow> doc \<Rightarrow> doc" where
  "with_id x details = fold (\<lambda>(k, v) d. dict_set d k v) details [(''_id'', x)]"

fun seed_activities :: "collection \<Rightarrow> (string \<times> doc) list \<Rightarrow> error + collection" where
  "seed_activities store [] = Inr store"
| "seed_activities store ((name, details) # rest) =
     (case insert_one store (with_id (VStr name) details) of
        Inl e \<Rightarrow> Inl e
      | Inr store' \<Rightarrow> seed_activities store' rest)"

fun seed_teachers :: "collection \<Rightarrow> doc list \<Rightarrow> error + collection" where
  "seed_teachers store [] = Inr store"
| "seed_teachers store (teacher # rest) =
     (case map_of teacher ''username'' of
        None \<Rightarrow> Inl KeyError
      | Some username \<Rightarrow>
          (case insert_one store (with_id username teacher) of
             Inl e \<Rightarrow> Inl e
           | Inr store' \<Rightarrow> seed_teachers store' rest))"

text \<open>
  The two module-level handles. \<^verbatim>\<open>None\<close> is the state before \<^verbatim>\<open>_init_db\<close>; the
  model follows \<^verbatim>\<open>_init_db\<close> on its fallback path, where \<^verbatim>\<open>_setup_mock_db\<close> binds
  both handles to empty collections.
\<close>

record db =
  activities_collection :: collection
  teachers_collection :: collection

definition setup_mock_db :: db where
  "setup_mock_db = \<lparr>activities_collection = [], teachers_collection = []\<rparr>"

definition init_database :: "(string \<Rightarrow> string) \<Rightarrow> db option \<Rightarrow> error + db" where
  "init_database hash_password handles =
     (let st = (case handles of None \<Rightarrow> setup_mock_db | Some st \<Rightarrow> st)
      in ebind (count_documents (activities_collection st) []) (\<lambda>n.
         ebind (if n = 0 then seed_activities (activities_collection st) initial_activities
                else Inr (activities_collection st)) (\<lambda>activities.
         ebind (count_documents (teachers_collection st) []) (\<lambda>m.
         ebind (if m = 0
                then seed_teachers (teachers_collection st) (initial_teachers hash_password)
                else Inr (teachers_collection st)) (\<lambda>teachers.
         Inr \<lparr>activities_collection = activities, teachers_collection = teachers\<rparr>)))))"

section \<open>The store after seeding, and the queries of the specification\<close>

text \<open>What seeding writes into two empty collections: every seed document under its
  identifier, with the identifier as its first field.\<close>

definition seeded_activities :: collection where
  "seeded_activities =
     map (\<lambda>(name, details). (VStr name, (''_id'', VStr name) # details)) initial_activities"

definition seeded_teachers :: "(string \<Rightarrow> string) \<Rightarrow> collection" where
  "seeded_teachers hash_password =
     map (\<lambda>t. (doc_get t ''username'', (''_id'', doc_get t ''username'') # t))
       (initial_teachers hash_password)"

text \<open>The filter \<^verbatim>\<open>{"schedule_details.days": {"$in": ["Monday", "Friday"]}}\<close>.\<close>

definition days_query :: doc where
  "days_query =
     [(''schedule_details.days'', VDict [(''$in'', VList [VStr ''Monday'', VStr ''Friday''])])]"

text \<open>The filter \<^verbatim>\<open>{"schedule_details.start_time": {"$gte": "09:00"},
  "schedule_details.end_time": {"$lte": "18:00"}}\<close>.\<close>

definition time_query :: doc where
  "time_query =
     [(''schedule_details.start_time'', VDict [(''$gte'', VStr ''09:00'')]),
      (''schedule_details.end_time'', VDict [(''$lte'', VStr ''18:00'')])]"

text \<open>The same filter with any two bounds.\<close>

definition time_range_query :: "string \<Rightarrow> string \<Rightarrow> doc" where
  "time_range_query lo hi =
     [(''schedule_details.start_time'', VDict [(''$gte'', VStr lo)]),
      (''schedule_details.end_time'', VDict [(''$lte'', VStr hi)])]"

text \<open>Reading a seed document: its weekday names and its two times, as stored.\<close>

definition days_of :: "doc \<Rightarrow> string list" where
  "days_of d =
     (case map_of d ''schedule_details'' of
        Some (VDict sd) \<Rightarrow>
          (case map_of sd ''days'' of
             Some (VList xs) \<Rightarrow> concat (map (\<lambda>x. case x of VStr s \<Rightarrow> [s] | _ \<Rightarrow> []) xs)
           | _ \<Rightarrow> [])
      | _ \<Rightarrow> [])"

definition time_of :: "doc \<Rightarrow> string \<Rightarrow> string" where
  "time_of d field =
     (case map_of d ''schedule_details'' of
        Some (VDict sd) \<Rightarrow> (case map_of sd field of Some (VStr s) \<Rightarrow> s | _ \<Rightarrow> [])
      | _ \<Rightarrow> [])"

text \<open>A document that stores both of its times as strings, as every activity does.\<close>

definition has_string_times :: "doc \<Rightarrow> bool" where
  "has_string_times d =
     (case map_of d ''schedule_details'' of
        Some (VDict sd) \<Rightarrow>
          (case map_of sd ''start_time'' of
             Some (VStr s) \<Rightarrow>
               (case map_of sd ''end_time'' of Some (VStr e) \<Rightarrow> True | _ \<Rightarrow> False)
           | _ \<Rightarrow> False)
      | _ \<Rightarrow> False)"

text \<open>A store with one activity inside the range 09:00 to 18:00, one that starts
  too early and one that starts late enough but ends too late.\<close>

definition evening_store :: collection where
  "evening_store =
     [(VStr ''Chess Club'',
       [(''_id'', VStr ''Chess Club''),
        (''schedule_details'',
         VDict [(''start_time'', VStr ''15:15''), (''end_time'', VStr ''16:45'')])]),
      (VStr ''Programming Class'',
       [(''_id'', VStr ''Programming Class''),
        (''schedule_details'',
         VDict [(''start_time'', VStr ''07:00''), (''end_time'', VStr ''08:00'')])]),
      (VStr ''Astronomy Night'',
       [(''_id'', VStr ''Astronomy Night''),
        (''schedule_details'',
         VDict [(''start_time'', VStr ''19:00''), (''end_time'', VStr ''23:00'')])])]"

text \<open>The pipeline of the days query: unwind \<^verbatim>\<open>schedule_details.days\<close>, group by
  the unwound value.\<close>

definition days_pipeline :: "doc list" where
  "days_pipeline =
     [[(''$unwind'', VStr ''$schedule_details.days'')],
      [(''$group'', VDict [(''_id'', VStr ''$schedule_details.days'')])]]"

text \<open>
  The specification's one recognized shape, in its words: the first stage unwinds the
  weekday-array field, the second groups by the distinct value of that field. Later
  stages are left free.
\<close>

definition spec_recognized_shape :: "doc list \<Rightarrow> bool" where
  "spec_recognized_shape pipeline =
     (case pipeline of
        stage0 # stage1 # later \<Rightarrow>
          doc_get stage0 ''$unwind'' = VStr ''$schedule_details.days'' \<and>
          doc_get stage1 ''$group'' = VDict [(''_id'', VStr ''$schedule_details.days'')]
      | _ \<Rightarrow> False)"

text \<open>A pipeline over another field: unwind the participants, group by participant.\<close>

definition participants_pipeline :: "doc list" where
  "participants_pipeline =
     [[(''$unwind'', VStr ''$participants'')],
      [(''$group'', VDict [(''_id'', VStr ''$participants'')])]]"

text \<open>The filter and the two updates of the push/pull round trip on Chess Club.\<close>

definition chess_query :: doc where
  "chess_query = [(''_id'', VStr ''Chess Club'')]"

definition push_update :: doc where
  "push_update = [(''$push'', VDict [(''participants'', VStr ''x@y.edu'')])]"

definition pull_update :: doc where
  "pull_update = [(''$pull'', VDict [(''participants'', VStr ''x@y.edu'')])]"

text \<open>The test \<^verbatim>\<open>aggregate\<close> makes before it collects the days:
  \<^verbatim>\<open>len(pipeline) >= 2 and pipeline[0].get("$unwind") and pipeline[1].get("$group")\<close>.\<close>

definition code_recognized_shape :: "doc list \<Rightarrow> bool" where
  "code_recognized_shape pipeline =
     (length pipeline \<ge> 2 \<and>
      truthy (doc_get (pipeline ! 0) ''$unwind'') \<and>
      truthy (doc_get (pipeline ! 1) ''$group''))"

text \<open>Small stores and documents on which the general statements are instantiated.\<close>

definition sample_doc :: doc where
  "sample_doc = [(''_id'', VStr ''Chess Club''), (''max_participants'', VInt 12)]"

definition sample_store :: collection where
  "sample_store =
     [(VStr ''Chess Club'', sample_doc),
      (VStr ''Art Club'', [(''_id'', VStr ''Art Club''), (''max_participants'', VInt 15)])]"

section \<open>Seeding is idempotent\<close>

lemma seed_activities_empty: "seed_activities [] initial_activities = Inr seeded_activities"
  by (simp add: seeded_activities_def initial_activities_def insert_one_def with_id_def
      doc_get_def Let_def)

lemma seed_teachers_empty: "seed_teachers [] (initial_teachers h) = Inr (seeded_teachers h)"
  by (simp add: seeded_teachers_def initial_teachers_def insert_one_def with_id_def
      doc_get_def Let_def)

lemma find_loop_empty_query: "find_loop ds [] = Inr ds"
  by (induction ds) simp_all

lemma count_documents_empty_query: "count_documents store [] = Inr (length store)"
  by (simp add: count_documents_def find_docs_def find_loop_empty_query ebind_def)

text \<open>\<^verbatim>\<open>init_database\<close> never raises, and touches a collection only when it is empty.\<close>

lemma init_database_result:
  "init_database h handles =
     (let st = (case handles of None \<Rightarrow> setup_mock_db | Some st \<Rightarrow> st) in
      Inr \<lparr>activities_collection =
             (if activities_collection st = [] then seeded_activities
              else activities_collection st),
           teachers_collection =
             (if teachers_collection st = [] then seeded_teachers h
              else teachers_collection st)\<rparr>)"
  by (simp add: init_database_def count_documents_empty_query ebind_def Let_def
      seed_activities_empty seed_teachers_empty)

lemma init_database_fresh:
  "init_database h None =
     Inr \<lparr>activities_collection = seeded_activities, teachers_collection = seeded_teachers h\<rparr>"
  by (simp add: init_database_result setup_mock_db_def)

lemma seeded_activities_length: "length seeded_activities = 12"
  by (simp add: seeded_activities_def initial_activities_def)

lemma seeded_teachers_length: "length (seeded_teachers h) = 3"
  by (simp add: seeded_teachers_def initial_teachers_def)

text \<open>
  Claim C8. Whatever the handles hold before, the first call of \<^verbatim>\<open>init_database\<close>
  returns a state with two non-empty collections, and a second call (even with other
  password hashes) returns that same state: the count of each collection over the empty
  filter is non-zero, so neither is seeded again, and both counts are those after the
  first call.
\<close>

theorem init_database_idempotent:
  "\<exists>st1 st2 n m.
     init_database h1 handles = Inr st1 \<and>
     init_database h2 (Some st1) = Inr st2 \<and>
     st2 = st1 \<and>
     count_documents (activities_collection st1) [] = Inr n \<and> n \<noteq> 0 \<and>
     count_documents (activities_collection st2) [] = Inr n \<and>
     count_documents (teachers_collection st1) [] = Inr m \<and> m \<noteq> 0 \<and>
     count_documents (teachers_collection st2) [] = Inr m"
proof -
  define st where "st = (case handles of None \<Rightarrow> setup_mock_db | Some s \<Rightarrow> s)"
  define st1 where
    "st1 = \<lparr>activities_collection =
             (if activities_collection st = [] then seeded_activities
              else activities_collection st),
           teachers_collection =
             (if teachers_collection st = [] then seeded_teachers h1
              else teachers_collection st)\<rparr>"
  have first: "init_database h1 handles = Inr st1"
    by (simp add: init_database_result st1_def st_def Let_def)
  have acts: "activities_collection st1 \<noteq> []"
    using seeded_activities_length by (auto simp: st1_def)
  have teach: "teachers_collection st1 \<noteq> []"
    using seeded_teachers_length [of h1] by (auto simp: st1_def)
  have second: "init_database h2 (Some st1) = Inr st1"
    using acts teach by (simp add: init_database_result)
  show ?thesis
    using first second acts teach by (simp add: count_documents_empty_query)
qed

section \<open>Queries on the seeded store\<close>

lemma find_days_result:
  "find_docs seeded_activities (Some days_query) =
     Inr (filter (\<lambda>d. ''Monday'' \<in> set (days_of d) \<or> ''Friday'' \<in> set (days_of d))
            (map snd seeded_activities))"
  by (simp add: find_docs_def seeded_activities_def initial_activities_def days_query_def
      query_item_def days_in_clause_def ebind_def doc_get_def dict_has_def days_of_def)

lemma find_days_ids:
  "map (\<lambda>d. doc_get d ''_id'')
     (filter (\<lambda>d. ''Monday'' \<in> set (days_of d) \<or> ''Friday'' \<in> set (days_of d))
        (map snd seeded_activities)) =
   [VStr ''Chess Club'', VStr ''Morning Fitness'', VStr ''Basketball Team'',
    VStr ''Drama Club'', VStr ''Debate Team'']"
  by (simp add: seeded_activities_def initial_activities_def doc_get_def days_of_def)

text \<open>
  Claim C2. Seeding two empty collections succeeds, and on the seeded activities
  \<^verbatim>\<open>find\<close> with the filter \<^verbatim>\<open>schedule_details.days $in [Monday, Friday]\<close> returns,
  in store order, exactly the documents whose stored list of days holds Monday or
  Friday: Chess Club, Morning Fitness, Basketball Team, Drama Club and Debate Team.
\<close>

theorem find_days_seeded:
  "\<exists>st r.
     init_database h None = Inr st \<and>
     find_docs (activities_collection st) (Some days_query) = Inr r \<and>
     r = filter (\<lambda>d. ''Monday'' \<in> set (days_of d) \<or> ''Friday'' \<in> set (days_of d))
           (map snd (activities_collection st)) \<and>
     map (\<lambda>d. doc_get d ''_id'') r =
       [VStr ''Chess Club'', VStr ''Morning Fitness'', VStr ''Basketball Team'',
        VStr ''Drama Club'', VStr ''Debate Team'']"
  by (simp add: init_database_fresh find_days_result find_days_ids)

lemma find_time_result:
  "find_docs seeded_activities (Some time_query) =
     Inr (filter (\<lambda>d. \<not> time_of d ''start_time'' < ''09:00'' \<and>
                       \<not> time_of d ''end_time'' > ''18:00'')
            (map snd seeded_activities))"
  by (simp add: find_docs_def seeded_activities_def initial_activities_def time_query_def
      query_item_def start_gte_clause_def end_lte_clause_def ebind_def doc_get_def
      dict_has_def time_of_def)

lemma find_time_ids:
  "map (\<lambda>d. doc_get d ''_id'')
     (filter (\<lambda>d. \<not> time_of d ''start_time'' < ''09:00'' \<and>
                   \<not> time_of d ''end_time'' > ''18:00'')
        (map snd seeded_activities)) =
   [VStr ''Chess Club'', VStr ''Soccer Team'', VStr ''Basketball Team'', VStr ''Art Club'',
    VStr ''Drama Club'', VStr ''Debate Team'', VStr ''Weekend Robotics Workshop'',
    VStr ''Science Olympiad'', VStr ''Sunday Chess Tournament'']"
  by (simp add: seeded_activities_def initial_activities_def doc_get_def time_of_def)

text \<open>The two time bounds compare the stored strings with the bound strings, in the
  lexicographic order of character lists; nothing is parsed, so an unpadded hour
  compares by its first character.\<close>

lemma time_bounds_compare_strings:
  "doc_matches
     [(''schedule_details'', VDict [(''start_time'', VStr s), (''end_time'', VStr e)])]
     [(''schedule_details.start_time'', VDict [(''$gte'', VStr lo)]),
      (''schedule_details.end_time'', VDict [(''$lte'', VStr hi)])] =
   Inr (\<not> s < lo \<and> \<not> hi < e)"
  by (simp add: query_item_def start_gte_clause_def end_lte_clause_def ebind_def doc_get_def
      dict_has_def)

lemma has_string_timesE:
  assumes "has_string_times d"
  obtains sd s e where "map_of d ''schedule_details'' = Some (VDict sd)"
    and "map_of sd ''start_time'' = Some (VStr s)"
    and "map_of sd ''end_time'' = Some (VStr e)"
proof -
  from assms obtain sd where sd: "map_of d ''schedule_details'' = Some (VDict sd)"
    by (auto simp: has_string_times_def split: option.splits val.splits)
  from assms sd obtain s where s: "map_of sd ''start_time'' = Some (VStr s)"
    by (auto simp: has_string_times_def split: option.splits val.splits)
  from assms sd s obtain e where "map_of sd ''end_time'' = Some (VStr e)"
    by (auto simp: has_string_times_def split: option.splits val.splits)
  with sd s that show thesis by blast
qed

lemma doc_matches_time_range:
  assumes "has_string_times d"
  shows "doc_matches d (time_range_query lo hi) =
         Inr (\<not> time_of d ''start_time'' < lo \<and> \<not> hi < time_of d ''end_time'')"
proof -
  from assms obtain sd s e where sd: "map_of d ''schedule_details'' = Some (VDict sd)"
    and s: "map_of sd ''start_time'' = Some (VStr s)"
    and e: "map_of sd ''end_time'' = Some (VStr e)"
    by (rule has_string_timesE)
  have lower: "start_gte_clause d (VDict [(''$gte'', VStr lo)]) = Inr (\<not> s < lo)"
    by (simp add: start_gte_clause_def sd s ebind_def doc_get_def)
  have upper: "end_lte_clause d (VDict [(''$lte'', VStr hi)]) = Inr (\<not> hi < e)"
    by (simp add: end_lte_clause_def sd e ebind_def doc_get_def)
  have item1:
    "query_item d ''schedule_details.start_time'' (VDict [(''$gte'', VStr lo)]) =
       Inr (\<not> s < lo)"
    by (simp add: query_item_def ebind_def dict_has_def lower)
  have item2:
    "query_item d ''schedule_details.end_time'' (VDict [(''$lte'', VStr hi)]) =
       Inr (\<not> hi < e)"
    by (simp add: query_item_def ebind_def dict_has_def upper)
  have stored: "time_of d ''start_time'' = s" "time_of d ''end_time'' = e"
    by (simp_all add: time_of_def sd s e)
  show ?thesis
    by (simp add: time_range_query_def item1 item2 stored)
qed

lemma find_loop_time_range:
  assumes "list_all has_string_times ds"
  shows "find_loop ds (time_range_query lo hi) =
         Inr (filter (\<lambda>d. \<not> time_of d ''start_time'' < lo \<and>
                           \<not> hi < time_of d ''end_time'') ds)"
  using assms
proof (induction ds)
  case Nil
  then show ?case by simp
next
  case (Cons d ds)
  then have d: "has_string_times d" and ds: "list_all has_string_times ds"
    by simp_all
  show ?case
    by (simp add: doc_matches_time_range [OF d] Cons.IH [OF ds])
qed

lemma find_docs_time_range:
  assumes "list_all has_string_times (map snd store)"
  shows "find_docs store (Some (time_range_query lo hi)) =
         Inr (filter (\<lambda>d. \<not> time_of d ''start_time'' < lo \<and>
                           \<not> hi < time_of d ''end_time'') (map snd store))"
  using find_loop_time_range [OF assms] by (simp add: find_docs_def)

lemma string_less_is_lexicographic:
  fixes s t :: string
  shows "(s < t) = ((s, t) \<in> lexord {(a, b). a < b})"
  by (simp add: list_less_def)

lemma unpadded_hour_compares_by_character: "''10:00'' < ''9:00''"
  by simp

text \<open>
  Claim C3. On the seeded activities \<^verbatim>\<open>find\<close> with the filter
  \<^verbatim>\<open>start_time $gte "09:00", end_time $lte "18:00"\<close> returns exactly the documents
  whose stored start string is not below \<^verbatim>\<open>"09:00"\<close> and whose stored end string is
  not above \<^verbatim>\<open>"18:00"\<close>, both in the lexicographic order of strings (the order
  \<open><\<close> on character lists); Chess Club is among them and Programming Class is not.
  For any stored strings and any bound strings, a document matches the two bounds
  exactly when its start string is not below the lower bound and its end string is not
  above the upper bound in that order. On every store whose documents keep both times
  as strings, \<^verbatim>\<open>find\<close> with a lower and an upper bound returns, in store order,
  exactly the documents that pass both comparisons.
\<close>

theorem find_time_range_seeded:
  "(\<exists>st r.
     init_database h None = Inr st \<and>
     find_docs (activities_collection st) (Some time_query) = Inr r \<and>
     r = filter (\<lambda>d. \<not> time_of d ''start_time'' < ''09:00'' \<and>
                     \<not> time_of d ''end_time'' > ''18:00'')
           (map snd (activities_collection st)) \<and>
     VStr ''Chess Club'' \<in> set (map (\<lambda>d. doc_get d ''_id'') r) \<and>
     VStr ''Programming Class'' \<notin> set (map (\<lambda>d. doc_get d ''_id'') r) \<and>
     map (\<lambda>d. doc_get d ''_id'') r =
       [VStr ''Chess Club'', VStr ''Soccer Team'', VStr ''Basketball Team'',
        VStr ''Art Club'', VStr ''Drama Club'', VStr ''Debate Team'',
        VStr ''Weekend Robotics Workshop'', VStr ''Science Olympiad'',
        VStr ''Sunday Chess Tournament'']) \<and>
   doc_matches
     [(''schedule_details'', VDict [(''start_time'', VStr s), (''end_time'', VStr e)])]
     [(''schedule_details.start_time'', VDict [(''$gte'', VStr lo)]),
      (''schedule_details.end_time'', VDict [(''$lte'', VStr hi)])] =
   Inr (\<not> s < lo \<and> \<not> hi < e) \<and>
   (list_all has_string_times (map snd store) \<longrightarrow>
      find_docs store (Some (time_range_query lo hi)) =
        Inr (filter (\<lambda>d. \<not> time_of d ''start_time'' < lo \<and>
                          \<not> hi < time_of d ''end_time'') (map snd store)))"
proof -
  define st where
    "st = \<lparr>activities_collection = seeded_activities,
            teachers_collection = seeded_teachers h\<rparr>"
  define r where
    "r = filter (\<lambda>d. \<not> time_of d ''start_time'' < ''09:00'' \<and>
                     \<not> time_of d ''end_time'' > ''18:00'')
           (map snd seeded_activities)"
  have acts: "activities_collection st = seeded_activities"
    by (simp add: st_def)
  have seeded: "init_database h None = Inr st"
    by (simp add: st_def init_database_fresh)
  have found: "find_docs (activities_collection st) (Some time_query) = Inr r"
    by (simp only: acts r_def find_time_result)
  have filtered:
    "r = filter (\<lambda>d. \<not> time_of d ''start_time'' < ''09:00'' \<and>
                     \<not> time_of d ''end_time'' > ''18:00'')
           (map snd (activities_collection st))"
    by (simp only: acts r_def)
  have ids:
    "map (\<lambda>d. doc_get d ''_id'') r =
       [VStr ''Chess Club'', VStr ''Soccer Team'', VStr ''Basketball Team'',
        VStr ''Art Club'', VStr ''Drama Club'', VStr ''Debate Team'',
        VStr ''Weekend Robotics Workshop'', VStr ''Science Olympiad'',
        VStr ''Sunday Chess Tournament'']"
    unfolding r_def by (rule find_time_ids)
  have chess: "VStr ''Chess Club'' \<in> set (map (\<lambda>d. doc_get d ''_id'') r)"
    unfolding ids by simp
  have programming: "VStr ''Programming Class'' \<notin> set (map (\<lambda>d. doc_get d ''_id'') r)"
    unfolding ids by simp
  have general:
    "list_all has_string_times (map snd store) \<longrightarrow>
       find_docs store (Some (time_range_query lo hi)) =
         Inr (filter (\<lambda>d. \<not> time_of d ''start_time'' < lo \<and>
                           \<not> hi < time_of d ''end_time'') (map snd store))"
    using find_docs_time_range by blast
  from seeded found filtered chess programming ids time_bounds_compare_strings general
  show ?thesis
    by (intro exI conjI)
qed

text \<open>On the three-document store the filter of the claim keeps Chess Club only:
  Programming Class falls to the lower bound, and Astronomy Night, which the lower
  bound alone would keep, falls to the upper bound.\<close>

theorem find_time_range_seeded_witness:
  "list_all has_string_times (map snd evening_store) \<and>
   time_range_query ''09:00'' ''18:00'' = time_query \<and>
   find_docs evening_store (Some time_query) =
     Inr [[(''_id'', VStr ''Chess Club''),
           (''schedule_details'',
            VDict [(''start_time'', VStr ''15:15''), (''end_time'', VStr ''16:45'')])]] \<and>
   find_docs evening_store
       (Some [(''schedule_details.start_time'', VDict [(''$gte'', VStr ''09:00'')])]) =
     Inr [[(''_id'', VStr ''Chess Club''),
           (''schedule_details'',
            VDict [(''start_time'', VStr ''15:15''), (''end_time'', VStr ''16:45'')])],
          [(''_id'', VStr ''Astronomy Night''),
           (''schedule_details'',
            VDict [(''start_time'', VStr ''19:00''), (''end_time'', VStr ''23:00'')])]]"
proof -
  have times: "list_all has_string_times (map snd evening_store)"
    by (simp add: evening_store_def has_string_times_def)
  have query: "time_range_query ''09:00'' ''18:00'' = time_query"
    by (simp add: time_query_def time_range_query_def)
  have "find_docs evening_store (Some (time_range_query ''09:00'' ''18:00'')) =
          Inr (filter (\<lambda>d. \<not> time_of d ''start_time'' < ''09:00'' \<and>
                            \<not> ''18:00'' < time_of d ''end_time'') (map snd evening_store))"
    using find_time_range_seeded
      [where store = evening_store and lo = "''09:00''" and hi = "''18:00''"] times
    by blast
  then have both:
    "find_docs evening_store (Some time_query) =
       Inr [[(''_id'', VStr ''Chess Club''),
             (''schedule_details'',
              VDict [(''start_time'', VStr ''15:15''), (''end_time'', VStr ''16:45'')])]]"
    unfolding query by (simp add: evening_store_def time_of_def)
  have lower_only:
    "find_docs evening_store
         (Some [(''schedule_details.start_time'', VDict [(''$gte'', VStr ''09:00'')])]) =
       Inr [[(''_id'', VStr ''Chess Club''),
             (''schedule_details'',
              VDict [(''start_time'', VStr ''15:15''), (''end_time'', VStr ''16:45'')])],
            [(''_id'', VStr ''Astronomy Night''),
             (''schedule_details'',
              VDict [(''start_time'', VStr ''19:00''), (''end_time'', VStr ''23:00'')])]]"
    by (simp add: find_docs_def evening_store_def query_item_def start_gte_clause_def
        ebind_def doc_get_def dict_has_def)
  from times query both lower_only show ?thesis
    by (intro conjI)
qed

section \<open>Aggregation\<close>

lemma aggregate_days_result:
  "aggregate seeded_activities days_pipeline =
     Inr [[(''_id'', VStr ''Friday'')], [(''_id'', VStr ''Monday'')],
          [(''_id'', VStr ''Saturday'')], [(''_id'', VStr ''Sunday'')],
          [(''_id'', VStr ''Thursday'')], [(''_id'', VStr ''Tuesday'')],
          [(''_id'', VStr ''Wednesday'')]]"
  by (simp add: aggregate_def days_pipeline_def seeded_activities_def initial_activities_def
      doc_days_def py_sorted_def ebind_def doc_get_def dict_has_def)

lemma seeded_days:
  "set (concat (map (\<lambda>(key, d). days_of d) seeded_activities)) =
   set [''Friday'', ''Monday'', ''Saturday'', ''Sunday'', ''Thursday'', ''Tuesday'',
        ''Wednesday'']"
  by (simp add: seeded_activities_def initial_activities_def days_of_def insert_commute)

text \<open>
  Claim C6. On the seeded activities the days pipeline returns one document
  \<^verbatim>\<open>{"_id": day}\<close> for each of Friday, Monday, Saturday, Sunday, Thursday, Tuesday,
  Wednesday: the names are in ascending order, none occurs twice, and they are
  exactly the names that occur in the stored day lists.
\<close>

theorem aggregate_days_seeded:
  "\<exists>st names.
     init_database h None = Inr st \<and>
     aggregate (activities_collection st) days_pipeline =
       Inr (map (\<lambda>name. [(''_id'', VStr name)]) names) \<and>
     names = [''Friday'', ''Monday'', ''Saturday'', ''Sunday'', ''Thursday'', ''Tuesday'',
              ''Wednesday''] \<and>
     sorted names \<and> distinct names \<and>
     set names = set (concat (map (\<lambda>(key, d). days_of d) (activities_collection st)))"
proof -
  define st where
    "st = \<lparr>activities_collection = seeded_activities,
            teachers_collection = seeded_teachers h\<rparr>"
  define names where
    "names = [''Friday'', ''Monday'', ''Saturday'', ''Sunday'', ''Thursday'', ''Tuesday'',
              ''Wednesday'']"
  have acts: "activities_collection st = seeded_activities"
    by (simp add: st_def)
  have seeded: "init_database h None = Inr st"
    by (simp add: st_def init_database_fresh)
  have result:
    "aggregate (activities_collection st) days_pipeline =
       Inr (map (\<lambda>name. [(''_id'', VStr name)]) names)"
    unfolding acts aggregate_days_result by (simp add: names_def)
  have ordered: "sorted names" and once: "distinct names"
    by (simp_all add: names_def)
  have all_days:
    "set names = set (concat (map (\<lambda>(key, d). days_of d) (activities_collection st)))"
    unfolding acts seeded_days by (simp add: names_def)
  from seeded result names_def ordered once all_days show ?thesis
    by (intro exI conjI)
qed

text \<open>The test of the shape looks at the first two stages only, and only at whether
  \<^verbatim>\<open>$unwind\<close> and \<^verbatim>\<open>$group\<close> are present with a true value.\<close>

lemma aggregate_unrecognized: "\<not> code_recognized_shape pipeline \<Longrightarrow> aggregate store pipeline = Inr []"
  by (auto simp: aggregate_def code_recognized_shape_def split: list.splits)

lemma aggregate_recognized:
  assumes "code_recognized_shape pipeline" and "code_recognized_shape pipeline'"
  shows "aggregate store pipeline = aggregate store pipeline'"
  using assms by (auto simp: aggregate_def code_recognized_shape_def split: list.splits)

lemma days_pipeline_recognized: "code_recognized_shape days_pipeline"
  by (simp add: code_recognized_shape_def days_pipeline_def doc_get_def)

text \<open>
  Claim C1, as amended. \<^verbatim>\<open>aggregate\<close> returns the empty sequence for every pipeline
  that has fewer than two stages, or whose first stage has no true \<^verbatim>\<open>$unwind\<close>, or
  whose second stage has no true \<^verbatim>\<open>$group\<close>. Every other pipeline gets the result of
  the days pipeline, whichever field its stages name.
\<close>

theorem aggregate_by_shape:
  "aggregate store pipeline =
     (if code_recognized_shape pipeline then aggregate store days_pipeline else Inr [])"
  using aggregate_unrecognized [of pipeline store]
    aggregate_recognized [OF _ days_pipeline_recognized, of pipeline store]
  by simp

text \<open>
  Claim C1 as stated fails: the pipeline that unwinds and groups the participants
  is not the shape of the specification, and on the seeded activities it returns the
  seven weekday documents.
\<close>

theorem aggregate_other_field_counterexample:
  "\<not> spec_recognized_shape participants_pipeline \<and>
   aggregate seeded_activities participants_pipeline =
     Inr [[(''_id'', VStr ''Friday'')], [(''_id'', VStr ''Monday'')],
          [(''_id'', VStr ''Saturday'')], [(''_id'', VStr ''Sunday'')],
          [(''_id'', VStr ''Thursday'')], [(''_id'', VStr ''Tuesday'')],
          [(''_id'', VStr ''Wednesday'')]]"
proof -
  have "\<not> spec_recognized_shape participants_pipeline"
    by (simp add: spec_recognized_shape_def participants_pipeline_def doc_get_def)
  moreover have "code_recognized_shape participants_pipeline"
    by (simp add: code_recognized_shape_def participants_pipeline_def doc_get_def)
  then have "aggregate seeded_activities participants_pipeline =
             aggregate seeded_activities days_pipeline"
    using days_pipeline_recognized by (rule aggregate_recognized)
  ultimately show ?thesis
    by (simp add: aggregate_days_result)
qed

section \<open>Lookup by identifier\<close>

lemma all_fields_equal_iff:
  "all_fields_equal d query = (\<forall>(k, v) \<in> set query. py_eq (doc_get d k) v)"
  by (induction query) (auto split: if_splits)

lemma find_one_is_first_with_id:
  assumes "map_of query ''_id'' = Some qid"
  shows "find_one store query =
         List.find (\<lambda>d. py_eq (doc_get d ''_id'') qid) (map snd store)"
proof (induction store)
  case Nil
  then show ?case by simp
next
  case (Cons a store)
  obtain key d where a: "a = (key, d)" by (cases a)
  have mem: "(''_id'', qid) \<in> set query"
    using assms by (rule map_of_SomeD)
  have "\<not> all_fields_equal d query" if "\<not> py_eq (doc_get d ''_id'') qid"
    using that mem unfolding all_fields_equal_iff by auto
  then show ?case
    using Cons.IH by (simp add: a assms)
qed

text \<open>
  Claim C9. When the filter has an \<^verbatim>\<open>_id\<close>, \<^verbatim>\<open>find_one\<close> is the lookup of the
  first stored document whose \<^verbatim>\<open>_id\<close> equals it, whatever else the filter lists: if
  some document has that identifier, such a document is returned; if none has, the
  result is absent.
\<close>

theorem find_one_by_id:
  assumes "map_of query ''_id'' = Some qid"
  shows "find_one store query =
           List.find (\<lambda>d. py_eq (doc_get d ''_id'') qid) (map snd store) \<and>
         ((\<exists>d \<in> set (map snd store). py_eq (doc_get d ''_id'') qid) \<longrightarrow>
            (\<exists>d. find_one store query = Some d \<and> d \<in> set (map snd store) \<and>
                 py_eq (doc_get d ''_id'') qid)) \<and>
         ((\<forall>d \<in> set (map snd store). \<not> py_eq (doc_get d ''_id'') qid) \<longrightarrow>
            find_one store query = None)"
proof -
  let ?P = "\<lambda>d. py_eq (doc_get d ''_id'') qid"
  have eq: "find_one store query = List.find ?P (map snd store)"
    using assms by (rule find_one_is_first_with_id)
  have present: "\<exists>d. List.find ?P (map snd store) = Some d \<and> d \<in> set (map snd store) \<and> ?P d"
    if "\<exists>d \<in> set (map snd store). ?P d"
  proof -
    from that have "List.find ?P (map snd store) \<noteq> None"
      by (simp add: find_None_iff)
    then obtain d where d: "List.find ?P (map snd store) = Some d"
      by blast
    then have "?P d \<and> d \<in> set (map snd store)"
      by (auto simp: find_Some_iff)
    with d show ?thesis by blast
  qed
  have absent: "List.find ?P (map snd store) = None"
    if "\<forall>d \<in> set (map snd store). \<not> ?P d"
    using that by (simp add: find_None_iff)
  from present absent show ?thesis
    unfolding eq by blast
qed

text \<open>The filter names Chess Club and a \<^verbatim>\<open>max_participants\<close> the document does not
  have; the document is returned all the same.\<close>

theorem find_one_by_id_witness:
  "map_of [(''_id'', VStr ''Chess Club''), (''max_participants'', VInt 99)] ''_id'' =
     Some (VStr ''Chess Club'') \<and>
   find_one sample_store [(''_id'', VStr ''Chess Club''), (''max_participants'', VInt 99)] =
     Some sample_doc \<and>
   \<not> all_fields_equal sample_doc [(''_id'', VStr ''Chess Club''), (''max_participants'', VInt 99)]"
  using find_one_by_id
    [of "[(''_id'', VStr ''Chess Club''), (''max_participants'', VInt 99)]"
        "VStr ''Chess Club''" sample_store]
  by (simp add: sample_store_def sample_doc_def doc_get_def)

section \<open>Updates\<close>

text \<open>
  Claim C4. When the filter carries an identifier that no stored document has,
  \<^verbatim>\<open>update_one\<close> returns the modified count 0 and the store is as it was, whatever
  the update.
\<close>

theorem update_one_absent:
  assumes "map_of query ''_id'' = Some ident"
    and "\<forall>(key, d) \<in> set store. \<not> py_eq (doc_get d ''_id'') ident"
  shows "update_one store query update = (store, Inr 0)"
proof -
  have q: "doc_get query ''_id'' = ident"
    using assms(1) by (simp add: doc_get_def)
  from assms(2) show ?thesis
    unfolding q [symmetric] by (induction store) auto
qed

theorem update_one_absent_witness:
  "map_of [(''_id'', VStr ''Glee Club'')] ''_id'' = Some (VStr ''Glee Club'') \<and>
   \<not> py_eq (doc_get sample_doc ''_id'') (VStr ''Glee Club'') \<and>
   update_one sample_store [(''_id'', VStr ''Glee Club'')] push_update = (sample_store, Inr 0)"
  using update_one_absent
    [of "[(''_id'', VStr ''Glee Club'')]" "VStr ''Glee Club''" sample_store push_update]
  by (simp add: sample_store_def sample_doc_def doc_get_def)

text \<open>
  Claim C10. When some stored document has the identifier of the filter and the
  update has neither \<^verbatim>\<open>$push\<close> nor \<^verbatim>\<open>$pull\<close>, \<^verbatim>\<open>update_one\<close> returns the
  modified count 1 and the store is as it was.
\<close>

theorem update_one_no_operator:
  assumes "\<exists>(key, d) \<in> set store. py_eq (doc_get d ''_id'') (doc_get query ''_id'')"
    and "map_of update ''$push'' = None"
    and "map_of update ''$pull'' = None"
  shows "update_one store query update = (store, Inr 1)"
  using assms(1)
proof (induction store)
  case Nil
  then show ?case by simp
next
  case (Cons a store)
  obtain key d where a: "a = (key, d)" by (cases a)
  show ?case
  proof (cases "py_eq (doc_get d ''_id'') (doc_get query ''_id'')")
    case True
    then show ?thesis
      by (simp add: a apply_update_def assms(2,3))
  next
    case False
    with Cons.prems a
    have "\<exists>(key, d) \<in> set store. py_eq (doc_get d ''_id'') (doc_get query ''_id'')"
      by auto
    with Cons.IH False show ?thesis by (simp add: a)
  qed
qed

theorem update_one_no_operator_witness:
  "py_eq (doc_get sample_doc ''_id'') (doc_get chess_query ''_id'') \<and>
   map_of [(''$set'', VDict [(''max_participants'', VInt 13)])] ''$push'' = None \<and>
   map_of [(''$set'', VDict [(''max_participants'', VInt 13)])] ''$pull'' = None \<and>
   update_one sample_store chess_query [(''$set'', VDict [(''max_participants'', VInt 13)])] =
     (sample_store, Inr 1)"
  using update_one_no_operator
    [of sample_store chess_query "[(''$set'', VDict [(''max_participants'', VInt 13)])]"]
  by (simp add: sample_store_def sample_doc_def chess_query_def doc_get_def)

lemma push_then_pull:
  "update_one seeded_activities chess_query push_update = (s1, r1) \<Longrightarrow>
   r1 = Inr 1 \<and>
   map_option (\<lambda>d. doc_get d ''participants'') (map_of s1 (VStr ''Chess Club'')) =
     Some (VList [VStr ''michael@mergington.edu'', VStr ''daniel@mergington.edu'',
                  VStr ''x@y.edu'']) \<and>
   update_one s1 chess_query pull_update = (seeded_activities, Inr 1)"
  by (auto simp add: seeded_activities_def initial_activities_def chess_query_def
      push_update_def pull_update_def apply_update_def doc_get_def dict_has_def Let_def)

lemma seeded_chess_participants:
  "map_option (\<lambda>d. doc_get d ''participants'') (map_of seeded_activities (VStr ''Chess Club'')) =
     Some (VList [VStr ''michael@mergington.edu'', VStr ''daniel@mergington.edu''])"
  by (simp add: seeded_activities_def initial_activities_def doc_get_def)

text \<open>
  Claim C5. On the seeded activities, pushing \<^verbatim>\<open>x@y.edu\<close> onto the participants
  of Chess Club modifies one document, whose participants are then the two seeded
  addresses followed by the new one; pulling \<^verbatim>\<open>x@y.edu\<close> again modifies one
  document and gives back the seeded store, so the participants of Chess Club are the
  two seeded addresses in their order.
\<close>

theorem push_pull_roundtrip:
  "\<exists>st s1.
     init_database h None = Inr st \<and>
     map_option (\<lambda>d. doc_get d ''participants'')
         (map_of (activities_collection st) (VStr ''Chess Club'')) =
       Some (VList [VStr ''michael@mergington.edu'', VStr ''daniel@mergington.edu'']) \<and>
     update_one (activities_collection st) chess_query push_update = (s1, Inr 1) \<and>
     map_option (\<lambda>d. doc_get d ''participants'') (map_of s1 (VStr ''Chess Club'')) =
       Some (VList [VStr ''michael@mergington.edu'', VStr ''daniel@mergington.edu'',
                    VStr ''x@y.edu'']) \<and>
     update_one s1 chess_query pull_update = (activities_collection st, Inr 1)"
proof -
  define st where
    "st = \<lparr>activities_collection = seeded_activities,
            teachers_collection = seeded_teachers h\<rparr>"
  obtain s1 r1 where push: "update_one seeded_activities chess_query push_update = (s1, r1)"
    by (cases "update_one seeded_activities chess_query push_update")
  note after = push_then_pull [OF push]
  have acts: "activities_collection st = seeded_activities"
    by (simp add: st_def)
  have seeded: "init_database h None = Inr st"
    by (simp add: st_def init_database_fresh)
  have before:
    "map_option (\<lambda>d. doc_get d ''participants'')
         (map_of (activities_collection st) (VStr ''Chess Club'')) =
       Some (VList [VStr ''michael@mergington.edu'', VStr ''daniel@mergington.edu''])"
    unfolding acts by (rule seeded_chess_participants)
  have pushed: "update_one (activities_collection st) chess_query push_update = (s1, Inr 1)"
    unfolding acts using push after by simp
  have pulled: "update_one s1 chess_query pull_update = (activities_collection st, Inr 1)"
    unfolding acts using after by simp
  from seeded before pushed after [THEN conjunct2, THEN conjunct1] pulled show ?thesis
    by (intro exI conjI)
qed

section \<open>Insertion\<close>






end
